theory Spec2Isabelle
  imports Complex_Main "HOL-Library.Sublist" "HOL-Library.Char_ord" "HOL-Library.Signed_Division"
begin

section \<open>Strings\<close>

text \<open>
  A Go string is a sequence of bytes, and so is an Isabelle \<open>string\<close>. The library
  functions of package \<open>strings\<close> that the program calls are modelled on bytes.
\<close>

definition Contains :: "string \<Rightarrow> string \<Rightarrow> bool" where
  \<comment> \<open>\<open>strings.Contains(s, substr)\<close>\<close>
  "Contains s substr = sublist substr s"

definition is_ascii :: "string \<Rightarrow> bool" where
  "is_ascii s = list_all (\<lambda>c. c < CHR 0x80) s"

definition lower_byte :: "char \<Rightarrow> char" where
  \<comment> \<open>\<open>c += 'a' - 'A'\<close> for \<open>'A' <= c <= 'Z'\<close>\<close>
  "lower_byte c =
     (if CHR ''A'' \<le> c \<and> c \<le> CHR ''Z'' then char_of (of_char c + (32::nat)) else c)"

definition ToLower :: "(string \<Rightarrow> string) \<Rightarrow> string \<Rightarrow> string" where
  \<comment> \<open>\<open>strings.ToLower\<close>: a string of ASCII bytes is lowered byte by byte; any other
      string goes through \<open>strings.Map(unicode.ToLower, s)\<close>, whose Unicode case tables
      are the parameter \<open>U\<close>.\<close>
  "ToLower U s = (if is_ascii s then map lower_byte s else U s)"

fun hasAny :: "string \<Rightarrow> string list \<Rightarrow> bool" where
  "hasAny s [] = False"
| "hasAny s (k # keys) = (if Contains s k then True else hasAny s keys)"

subsection \<open>\<open>strings.TrimSpace\<close>\<close>

definition asciiSpace :: "char \<Rightarrow> bool" where
  \<comment> \<open>tab, line feed, vertical tab, form feed, carriage return, space\<close>
  "asciiSpace c = (c \<in> set [CHR 0x09, CHR 0x0A, CHR 0x0B, CHR 0x0C, CHR 0x0D, CHR 0x20])"

definition unicode_spaces :: "string list" where
  \<comment> \<open>The UTF-8 encodings of the runes beyond ASCII for which \<open>unicode.IsSpace\<close> holds:
      U+0085, U+00A0, U+1680, U+2000 to U+200A, U+2028, U+2029, U+202F, U+205F, U+3000.\<close>
  "unicode_spaces =
     [[CHR 0xC2, CHR 0x85], [CHR 0xC2, CHR 0xA0], [CHR 0xE1, CHR 0x9A, CHR 0x80],
      [CHR 0xE2, CHR 0x80, CHR 0x80], [CHR 0xE2, CHR 0x80, CHR 0x81],
      [CHR 0xE2, CHR 0x80, CHR 0x82], [CHR 0xE2, CHR 0x80, CHR 0x83],
      [CHR 0xE2, CHR 0x80, CHR 0x84], [CHR 0xE2, CHR 0x80, CHR 0x85],
      [CHR 0xE2, CHR 0x80, CHR 0x86], [CHR 0xE2, CHR 0x80, CHR 0x87],
      [CHR 0xE2, CHR 0x80, CHR 0x88], [CHR 0xE2, CHR 0x80, CHR 0x89],
      [CHR 0xE2, CHR 0x80, CHR 0x8A], [CHR 0xE2, CHR 0x80, CHR 0xA8],
      [CHR 0xE2, CHR 0x80, CHR 0xA9], [CHR 0xE2, CHR 0x80, CHR 0xAF],
      [CHR 0xE2, CHR 0x81, CHR 0x9F], [CHR 0xE3, CHR 0x80, CHR 0x80]]"

definition space_width :: "string \<Rightarrow> nat" where
  \<comment> \<open>the number of bytes of the white-space rune the string starts with, 0 when it
      starts with none\<close>
  "space_width s =
     (case s of [] \<Rightarrow> 0
      | c # cs \<Rightarrow>
          if asciiSpace c then 1
          else (case find (\<lambda>p. prefix p s) unicode_spaces of Some p \<Rightarrow> length p | None \<Rightarrow> 0))"

definition last_space_width :: "string \<Rightarrow> nat" where
  \<comment> \<open>the same for the rune the string ends with (\<open>utf8.DecodeLastRuneInString\<close>)\<close>
  "last_space_width s =
     (if s = [] then 0
      else if asciiSpace (last s) then 1
      else (case find (\<lambda>p. suffix p s) unicode_spaces of Some p \<Rightarrow> length p | None \<Rightarrow> 0))"

lemma unicode_spaces_nonempty: "p \<in> set unicode_spaces \<Longrightarrow> p \<noteq> []"
  by (auto simp: unicode_spaces_def)

lemma space_width_le: "space_width s \<le> length s"
proof (cases s)
  case Nil
  then show ?thesis by (simp add: space_width_def)
next
  case (Cons c cs)
  show ?thesis
  proof (cases "find (\<lambda>p. prefix p s) unicode_spaces")
    case None
    with Cons show ?thesis by (simp add: space_width_def)
  next
    case (Some p)
    then have "prefix p s" by (auto simp: find_Some_iff)
    then have "length p \<le> length s" by (rule prefix_length_le)
    with Cons Some show ?thesis by (simp add: space_width_def)
  qed
qed

lemma space_width_pos_nonempty: "0 < space_width s \<Longrightarrow> s \<noteq> []"
  by (auto simp: space_width_def)

lemma last_space_width_pos_nonempty: "0 < last_space_width s \<Longrightarrow> s \<noteq> []"
  by (auto simp: last_space_width_def)

function trim_left :: "string \<Rightarrow> string" where
  "trim_left s = (if space_width s = 0 then s else trim_left (drop (space_width s) s))"
  by pat_completeness auto
termination
proof (relation "measure length")
  show "wf (measure length)" by simp
next
  fix s :: string
  assume "space_width s \<noteq> 0"
  then have "0 < space_width s" by simp
  with space_width_pos_nonempty [of s] show "(drop (space_width s) s, s) \<in> measure length"
    by (cases s) auto
qed

function trim_right :: "string \<Rightarrow> string" where
  "trim_right s =
     (if last_space_width s = 0 then s
      else trim_right (take (length s - last_space_width s) s))"
  by pat_completeness auto
termination
proof (relation "measure length")
  show "wf (measure length)" by simp
next
  fix s :: string
  assume "last_space_width s \<noteq> 0"
  then have "0 < last_space_width s" by simp
  with last_space_width_pos_nonempty [of s]
  show "(take (length s - last_space_width s) s, s) \<in> measure length"
    by (cases s) auto
qed

definition TrimSpace :: "string \<Rightarrow> string" where
  \<comment> \<open>\<open>strings.TrimSpace\<close>: white-space runes are cut from the left, then from the right\<close>
  "TrimSpace s = trim_right (trim_left s)"

section \<open>Time\<close>

text \<open>
  An instant (\<open>time.Time\<close>) is a count of nanoseconds on one time line. A
  \<open>time.Duration\<close> is an \<open>int64\<close> count of nanoseconds: its arithmetic wraps, and
  \<open>Time.Sub\<close> and \<open>Duration.Round\<close> saturate at the ends of its range.
\<close>

type_synonym instant = int

definition Second :: int where
  "Second = 1000000000"

definition maxDuration :: int where
  "maxDuration = 2 ^ 63 - 1"

definition minDuration :: int where
  "minDuration = - (2 ^ 63)"

definition int64 :: "int \<Rightarrow> int" where
  \<comment> \<open>the value a result has in an \<open>int64\<close>: two's complement wrap-around\<close>
  "int64 x = (x + 2 ^ 63) mod 2 ^ 64 - 2 ^ 63"

definition uint64 :: "int \<Rightarrow> int" where
  "uint64 x = x mod 2 ^ 64"

definition Sub :: "instant \<Rightarrow> instant \<Rightarrow> int" where
  \<comment> \<open>\<open>t.Sub(u)\<close>: the duration \<open>t - u\<close>, or the largest (smallest) duration when the
      difference does not fit\<close>
  "Sub t u =
     (if t - u > maxDuration then maxDuration
      else if t - u < minDuration then minDuration
      else t - u)"

definition lessThanHalf :: "int \<Rightarrow> int \<Rightarrow> bool" where
  \<comment> \<open>\<open>uint64(x)+uint64(x) < uint64(y)\<close>\<close>
  "lessThanHalf x y = (uint64 (uint64 x + uint64 x) < uint64 y)"

definition Round :: "int \<Rightarrow> int \<Rightarrow> int" where
  \<comment> \<open>\<open>d.Round(m)\<close>: \<open>d\<close> rounded to the nearest multiple of \<open>m\<close>, halfway values away
      from zero\<close>
  "Round d m =
     (if m \<le> 0 then d
      else
        let r = d smod m in
        if d < 0 then
          (let r = int64 (- r) in
           if lessThanHalf r m then int64 (d + r)
           else
             let d1 = int64 (d - m + r) in
             if d1 < d then d1 else minDuration)
        else if lessThanHalf r m then int64 (d - r)
        else
          let d1 = int64 (d + m - r) in
          if d1 > d then d1 else maxDuration)"

section \<open>Data types\<close>

record record_t =
  App :: string
  Title :: string
  Activity :: string
  Timestamp :: instant

record session =
  Start :: string
  End :: string
  App :: string
  Title :: string
  Activity :: string
  DurationSec :: int

section \<open>Labelling helpers\<close>

text \<open>The eleven labels, as the UTF-8 bytes of the Japanese string literals of the source.\<close>

definition label_mail :: string where
  \<comment> \<open>"exchanging mail"\<close>
  "label_mail = map char_of
     [0xE3, 0x83, 0xA1, 0xE3, 0x83, 0xBC, 0xE3, 0x83, 0xAB, 0xE3, 0x81, 0xAE, 0xE3, 0x82,
      0x84, 0xE3, 0x82, 0x8A, 0xE5, 0x8F, 0x96, 0xE3, 0x82, 0x8A :: nat]"

definition label_coding :: string where
  \<comment> \<open>"writing programs"\<close>
  "label_coding = map char_of
     [0xE3, 0x83, 0x97, 0xE3, 0x83, 0xAD, 0xE3, 0x82, 0xB0, 0xE3, 0x83, 0xA9, 0xE3, 0x83,
      0xA0, 0xE3, 0x81, 0xAE, 0xE5, 0x88, 0xB6, 0xE4, 0xBD, 0x9C :: nat]"

definition label_communication :: string where
  \<comment> \<open>"communication"\<close>
  "label_communication = map char_of
     [0xE3, 0x82, 0xB3, 0xE3, 0x83, 0x9F, 0xE3, 0x83, 0xA5, 0xE3, 0x83, 0x8B, 0xE3, 0x82,
      0xB1, 0xE3, 0x83, 0xBC, 0xE3, 0x82, 0xB7, 0xE3, 0x83, 0xA7, 0xE3, 0x83, 0xB3 :: nat]"

definition label_research :: string where
  \<comment> \<open>"research, reading documentation"\<close>
  "label_research = map char_of
     [0xE8, 0xAA, 0xBF, 0xE6, 0x9F, 0xBB, 0xE3, 0x83, 0xBB, 0xE3, 0x83, 0x89, 0xE3, 0x82,
      0xAD, 0xE3, 0x83, 0xA5, 0xE3, 0x83, 0xA1, 0xE3, 0x83, 0xB3, 0xE3, 0x83, 0x88, 0xE9,
      0x96, 0xB2, 0xE8, 0xA6, 0xA7 :: nat]"

definition label_browsing :: string where
  \<comment> \<open>"Web browsing"\<close>
  "label_browsing = map char_of
     [0x57, 0x65, 0x62, 0xE3, 0x83, 0x96, 0xE3, 0x83, 0xA9, 0xE3, 0x82, 0xA6, 0xE3, 0x82,
      0xB8, 0xE3, 0x83, 0xB3, 0xE3, 0x82, 0xB0 :: nat]"

definition label_documents :: string where
  \<comment> \<open>"editing documents"\<close>
  "label_documents = map char_of
     [0xE3, 0x83, 0x89, 0xE3, 0x82, 0xAD, 0xE3, 0x83, 0xA5, 0xE3, 0x83, 0xA1, 0xE3, 0x83,
      0xB3, 0xE3, 0x83, 0x88, 0xE7, 0xB7, 0xA8, 0xE9, 0x9B, 0x86 :: nat]"

definition label_spreadsheet :: string where
  \<comment> \<open>"spreadsheets, arranging data"\<close>
  "label_spreadsheet = map char_of
     [0xE8, 0xA1, 0xA8, 0xE8, 0xA8, 0x88, 0xE7, 0xAE, 0x97, 0xE3, 0x83, 0xBB, 0xE3, 0x83,
      0x87, 0xE3, 0x83, 0xBC, 0xE3, 0x82, 0xBF, 0xE6, 0x95, 0xB4, 0xE7, 0x90, 0x86 :: nat]"

definition label_slides :: string where
  \<comment> \<open>"preparing presentation material"\<close>
  "label_slides = map char_of
     [0xE3, 0x83, 0x97, 0xE3, 0x83, 0xAC, 0xE3, 0x82, 0xBC, 0xE3, 0x83, 0xB3, 0xE8, 0xB3,
      0x87, 0xE6, 0x96, 0x99, 0xE4, 0xBD, 0x9C, 0xE6, 0x88, 0x90 :: nat]"

definition label_files :: string where
  \<comment> \<open>"file operations"\<close>
  "label_files = map char_of
     [0xE3, 0x83, 0x95, 0xE3, 0x82, 0xA1, 0xE3, 0x82, 0xA4, 0xE3, 0x83, 0xAB, 0xE6, 0x93,
      0x8D, 0xE4, 0xBD, 0x9C :: nat]"

definition label_media :: string where
  \<comment> \<open>"watching and playing media"\<close>
  "label_media = map char_of
     [0xE3, 0x83, 0xA1, 0xE3, 0x83, 0x87, 0xE3, 0x82, 0xA3, 0xE3, 0x82, 0xA2, 0xE8, 0xA6,
      0x96, 0xE8, 0x81, 0xB4, 0xE3, 0x83, 0xBB, 0xE5, 0x86, 0x8D, 0xE7, 0x94, 0x9F :: nat]"

definition label_other :: string where
  \<comment> \<open>"other"\<close>
  "label_other = map char_of [0xE3, 0x81, 0x9D, 0xE3, 0x81, 0xAE, 0xE4, 0xBB, 0x96 :: nat]"

definition classifyActivity :: "(string \<Rightarrow> string) \<Rightarrow> string \<Rightarrow> string \<Rightarrow> string" where
  "classifyActivity U app title =
     (let a = ToLower U app; t = ToLower U title in
      if a = ''mail'' \<or> Contains a ''outlook'' \<or>
         Contains t ''gmail'' \<or> Contains t ''outlook'' \<or> Contains t ''yahoo mail''
      then label_mail
      else if Contains a ''visual studio code'' \<or> a = ''xcode'' \<or>
         Contains a ''intellij'' \<or> Contains a ''goland''
      then label_coding
      else if hasAny t [''.go'', ''.py'', ''.js'', ''.ts'', ''.rs'', ''.cpp'', ''.c'', ''.java'',
                        ''.rb'', ''.kt'', ''.swift'', ''.cs'']
      then label_coding
      else if Contains a ''slack'' \<or> Contains a ''teams'' \<or>
         Contains a ''discord'' \<or> Contains a ''zoom'' \<or> Contains a ''meet''
      then label_communication
      else if Contains a ''safari'' \<or> Contains a ''chrome'' \<or>
         Contains a ''arc'' \<or> Contains a ''firefox'' \<or>
         Contains a ''edge'' \<or> Contains a ''brave'' \<or>
         Contains a ''opera'' \<or> Contains a ''vivaldi''
      then (if hasAny t [''arxiv'', ''qiita'', ''stackoverflow'', ''docs'', ''doc:'',
                         ''documentation'', ''mdn'']
            then label_research
            else label_browsing)
      else if Contains a ''word'' \<or> Contains a ''pages'' \<or> Contains a ''notion'' \<or>
         Contains a ''obsidian''
      then label_documents
      else if Contains a ''excel'' \<or> Contains a ''numbers'' \<or> Contains a ''sheets''
      then label_spreadsheet
      else if Contains a ''powerpoint'' \<or> Contains a ''keynote''
      then label_slides
      else if Contains a ''finder'' \<or> Contains a ''path finder''
      then label_files
      else if hasAny t [''youtube'', ''netflix'', ''twitch'', ''spotify'', ''music'', ''soundcloud'']
      then label_media
      else label_other)"

subsection \<open>The classifier as an ordered rule table\<close>

text \<open>
  The specification describes the classifier as a closed, ordered list of
  (predicate, category) pairs, evaluated in order, the first match winning, with one
  default label when no rule matches. The definitions below follow those words; the
  predicates are the conditions of \<open>classifyActivity\<close>, on the lowered inputs.
  \<open>classifyActivity_first_match\<close> proves that the source and the table agree.
\<close>

definition rule_mail :: "string \<Rightarrow> string \<Rightarrow> bool" where
  "rule_mail a t =
     (a = ''mail'' \<or> Contains a ''outlook'' \<or>
      Contains t ''gmail'' \<or> Contains t ''outlook'' \<or> Contains t ''yahoo mail'')"

definition rule_editor :: "string \<Rightarrow> string \<Rightarrow> bool" where
  "rule_editor a t =
     (Contains a ''visual studio code'' \<or> a = ''xcode'' \<or>
      Contains a ''intellij'' \<or> Contains a ''goland'')"

definition rule_source_file :: "string \<Rightarrow> string \<Rightarrow> bool" where
  "rule_source_file a t =
     hasAny t [''.go'', ''.py'', ''.js'', ''.ts'', ''.rs'', ''.cpp'', ''.c'', ''.java'',
               ''.rb'', ''.kt'', ''.swift'', ''.cs'']"

definition rule_communication :: "string \<Rightarrow> string \<Rightarrow> bool" where
  "rule_communication a t =
     (Contains a ''slack'' \<or> Contains a ''teams'' \<or>
      Contains a ''discord'' \<or> Contains a ''zoom'' \<or> Contains a ''meet'')"

definition rule_browser :: "string \<Rightarrow> string \<Rightarrow> bool" where
  "rule_browser a t =
     (Contains a ''safari'' \<or> Contains a ''chrome'' \<or>
      Contains a ''arc'' \<or> Contains a ''firefox'' \<or>
      Contains a ''edge'' \<or> Contains a ''brave'' \<or>
      Contains a ''opera'' \<or> Contains a ''vivaldi'')"

definition browser_keywords :: "string list" where
  "browser_keywords =
     [''arxiv'', ''qiita'', ''stackoverflow'', ''docs'', ''doc:'', ''documentation'', ''mdn'']"

definition rule_browser_docs :: "string \<Rightarrow> string \<Rightarrow> bool" where
  "rule_browser_docs a t = (rule_browser a t \<and> hasAny t browser_keywords)"

definition rule_documents :: "string \<Rightarrow> string \<Rightarrow> bool" where
  "rule_documents a t =
     (Contains a ''word'' \<or> Contains a ''pages'' \<or> Contains a ''notion'' \<or>
      Contains a ''obsidian'')"

definition rule_spreadsheet :: "string \<Rightarrow> string \<Rightarrow> bool" where
  "rule_spreadsheet a t =
     (Contains a ''excel'' \<or> Contains a ''numbers'' \<or> Contains a ''sheets'')"

definition rule_slides :: "string \<Rightarrow> string \<Rightarrow> bool" where
  "rule_slides a t = (Contains a ''powerpoint'' \<or> Contains a ''keynote'')"

definition rule_files :: "string \<Rightarrow> string \<Rightarrow> bool" where
  "rule_files a t = (Contains a ''finder'' \<or> Contains a ''path finder'')"

definition rule_media :: "string \<Rightarrow> string \<Rightarrow> bool" where
  "rule_media a t =
     hasAny t [''youtube'', ''netflix'', ''twitch'', ''spotify'', ''music'', ''soundcloud'']"

definition rule_table :: "((string \<Rightarrow> string \<Rightarrow> bool) \<times> string) list" where
  "rule_table =
     [(rule_mail, label_mail), (rule_editor, label_coding), (rule_source_file, label_coding),
      (rule_communication, label_communication), (rule_browser_docs, label_research),
      (rule_browser, label_browsing), (rule_documents, label_documents),
      (rule_spreadsheet, label_spreadsheet), (rule_slides, label_slides),
      (rule_files, label_files), (rule_media, label_media)]"

fun first_match :: "((string \<Rightarrow> string \<Rightarrow> bool) \<times> string) list \<Rightarrow> string \<Rightarrow> string \<Rightarrow> string" where
  "first_match [] a t = label_other"
| "first_match ((p, l) # rs) a t = (if p a t then l else first_match rs a t)"

definition categories :: "string list" where
  "categories =
     [label_mail, label_coding, label_communication, label_research, label_browsing,
      label_documents, label_spreadsheet, label_slides, label_files, label_media, label_other]"

definition changed :: "record_t option \<Rightarrow> record_t \<Rightarrow> bool" where
  "changed prev cur =
     (case prev of
        None \<Rightarrow> True
      | Some p \<Rightarrow>
          record_t.App p \<noteq> record_t.App cur \<or> record_t.Title p \<noteq> record_t.Title cur \<or>
          record_t.Activity p \<noteq> record_t.Activity cur)"

subsection \<open>\<open>clean\<close>\<close>

definition re_space :: "char \<Rightarrow> bool" where
  \<comment> \<open>the class \<open>\s\<close> of package \<open>regexp\<close>: tab, line feed, form feed, carriage return,
      space\<close>
  "re_space c = (c \<in> set [CHR 0x09, CHR 0x0A, CHR 0x0C, CHR 0x0D, CHR 0x20])"

function collapse_spaces :: "string \<Rightarrow> string" where
  \<comment> \<open>\<open>spaceRe.ReplaceAllString(s, " ")\<close> for \<open>spaceRe = \s+\<close>: every maximal run
      of the class becomes one space\<close>
  "collapse_spaces [] = []"
| "collapse_spaces (c # cs) =
     (if re_space c then CHR '' '' # collapse_spaces (dropWhile re_space cs)
      else c # collapse_spaces cs)"
  by pat_completeness auto
termination
  by (relation "measure length") (auto simp: less_Suc_eq_le length_dropWhile_le)

definition clean :: "string \<Rightarrow> string" where
  "clean s =
     (let s1 = filter (\<lambda>c. c \<noteq> CHR 0x00) s;
          s2 = map (\<lambda>c. if c = CHR 0x09 then CHR '' '' else c) s1
      in TrimSpace (collapse_spaces s2))"

section \<open>Sessions\<close>

definition sessionFrom :: "(instant \<Rightarrow> string) \<Rightarrow> record_t \<Rightarrow> instant \<Rightarrow> instant \<Rightarrow> session" where
  \<comment> \<open>\<open>F\<close> is \<open>Format(time.RFC3339)\<close>, which depends on the local time zone\<close>
  "sessionFrom F r start end' =
     (let dur = Round (Sub end' start) Second;
          dur = (if dur < 0 then 0 else dur)
      in \<lparr> Start = F start,
           End = F end',
           App = clean (record_t.App r),
           Title = clean (record_t.Title r),
           Activity = clean (record_t.Activity r),
           DurationSec = int64 (dur sdiv Second) \<rparr>)"

section \<open>The file and the buffered writer\<close>

text \<open>
  The session log is one file. Its model holds the bytes written so far and the
  outcomes of the system calls to come: each \<open>Write\<close>, \<open>Sync\<close> and \<open>Close\<close> takes the
  next outcome of \<open>faults\<close>, and succeeds when the list is empty. A failing write leaves
  the first \<open>n\<close> bytes in the file.
\<close>

datatype io = Good | Bad nat

record os_file =
  data :: string
  faults :: "io list"
  closed :: bool

definition file_Write :: "os_file \<Rightarrow> string \<Rightarrow> os_file \<times> nat \<times> bool" where
  \<comment> \<open>\<open>f.Write(p)\<close>: the file, the number of bytes written, whether it failed\<close>
  "file_Write fl p =
     (if closed fl then (fl, 0, True)
      else case faults fl of
        [] \<Rightarrow> (fl\<lparr>data := data fl @ p\<rparr>, length p, False)
      | Good # r \<Rightarrow> (fl\<lparr>data := data fl @ p, faults := r\<rparr>, length p, False)
      | Bad n # r \<Rightarrow> (fl\<lparr>data := data fl @ take n p, faults := r\<rparr>, min n (length p), True))"

definition file_Sync :: "os_file \<Rightarrow> os_file \<times> bool" where
  "file_Sync fl =
     (if closed fl then (fl, True)
      else case faults fl of
        [] \<Rightarrow> (fl, False)
      | Good # r \<Rightarrow> (fl\<lparr>faults := r\<rparr>, False)
      | Bad n # r \<Rightarrow> (fl\<lparr>faults := r\<rparr>, True))"

definition file_Close :: "os_file \<Rightarrow> os_file \<times> bool" where
  "file_Close fl =
     (if closed fl then (fl, True)
      else case faults fl of
        [] \<Rightarrow> (fl\<lparr>closed := True\<rparr>, False)
      | Good # r \<Rightarrow> (fl\<lparr>closed := True, faults := r\<rparr>, False)
      | Bad n # r \<Rightarrow> (fl\<lparr>closed := True, faults := r\<rparr>, True))"

text \<open>
  \<open>bufio.Writer\<close> with its default buffer of 4096 bytes: \<open>buf\<close> holds the buffered
  bytes, and \<open>err\<close> is its sticky error: after a failed write no more data is accepted
  and every later \<open>Write\<close> and \<open>Flush\<close> fails. The writer points to its file; here
  the file is passed along with it.
\<close>

record bufio_writer =
  buf :: string
  err :: bool

definition defaultBufSize :: nat where
  "defaultBufSize = 4096"

definition Available :: "bufio_writer \<Rightarrow> nat" where
  "Available b = defaultBufSize - length (buf b)"

definition Buffered :: "bufio_writer \<Rightarrow> nat" where
  "Buffered b = length (buf b)"

definition Flush :: "bufio_writer \<times> os_file \<Rightarrow> bufio_writer \<times> os_file \<times> bool" where
  "Flush bf =
     (case bf of (b, fl) \<Rightarrow>
        if err b then (b, fl, True)
        else if Buffered b = 0 then (b, fl, False)
        else
          (case file_Write fl (buf b) of (fl', n, e) \<Rightarrow>
             if e \<or> n < Buffered b then (b\<lparr>buf := drop n (buf b), err := True\<rparr>, fl', True)
             else (b\<lparr>buf := []\<rparr>, fl', False)))"

lemma Flush_result:
  "Flush (b, fl) = (b', fl', e) \<Longrightarrow> \<not> err b' \<Longrightarrow> \<not> err b \<and> (buf b \<noteq> [] \<longrightarrow> buf b' = [])"
  by (auto simp: Flush_def Buffered_def split: if_splits prod.splits)

lemma file_Write_result:
  "file_Write fl p = (fl', n, False) \<Longrightarrow> n = length p"
  by (auto simp: file_Write_def split: if_splits list.splits io.splits)

function bufio_Write :: "bufio_writer \<times> os_file \<Rightarrow> string \<Rightarrow> bufio_writer \<times> os_file \<times> bool" where
  \<comment> \<open>\<open>b.Write(p)\<close> and \<open>b.WriteString(s)\<close>, which differ in the type of the argument only\<close>
  "bufio_Write (b, fl) p =
     (if length p > Available b \<and> \<not> err b then
        (if Buffered b = 0 then
           (case file_Write fl p of (fl', n, e) \<Rightarrow> bufio_Write (b\<lparr>err := e\<rparr>, fl') (drop n p))
         else
           (let n = min (Available b) (length p);
                b1 = b\<lparr>buf := buf b @ take n p\<rparr>
            in case Flush (b1, fl) of (b2, fl2, e) \<Rightarrow> bufio_Write (b2, fl2) (drop n p)))
      else if err b then (b, fl, True)
      else (b\<lparr>buf := buf b @ p\<rparr>, fl, False))"
  by pat_completeness auto
termination
proof (relation "measure (\<lambda>((b, fl), p). if err b then 0 else 2 * length p + (if buf b = [] then 0 else 1))")
  show "wf (measure (\<lambda>((b, fl), p). if err b then 0 else 2 * length p + (if buf b = [] then 0 else 1)))"
    by simp
next
  fix b :: bufio_writer and fl p fl' y n e
  assume a: "Available b < length p \<and> \<not> err b" "Buffered b = 0"
    and x: "(fl', y) = file_Write fl p" "(n, e) = y"
  from x have "file_Write fl p = (fl', n, e)" by simp
  with file_Write_result [of fl p fl' n] have "\<not> e \<Longrightarrow> drop n p = []" by auto
  with a show "(((b\<lparr>err := e\<rparr>, fl'), drop n p), (b, fl), p)
      \<in> measure (\<lambda>((b, fl), p). if err b then 0 else 2 * length p + (if buf b = [] then 0 else 1))"
    by (auto simp: Buffered_def)
next
  fix b :: bufio_writer and fl p n b1 b2 y fl2 e
  assume a: "Available b < length p \<and> \<not> err b" "Buffered b \<noteq> 0"
    and n: "n = min (Available b) (length p)" and b1: "b1 = b\<lparr>buf := buf b @ take n p\<rparr>"
    and x: "(b2, y) = Flush (b1, fl)" "(fl2, e) = y"
  from x have F: "Flush (b1, fl) = (b2, fl2, e)" by simp
  have "buf b1 \<noteq> []" using a b1 by (simp add: Buffered_def)
  with Flush_result [OF F] have "\<not> err b2 \<Longrightarrow> buf b2 = []" by simp
  with a show "(((b2, fl2), drop n p), (b, fl), p)
      \<in> measure (\<lambda>((b, fl), p). if err b then 0 else 2 * length p + (if buf b = [] then 0 else 1))"
    by (auto simp: Buffered_def)
qed

section \<open>\<open>json.Marshal\<close> of a session\<close>

text \<open>
  \<open>json.Marshal\<close> writes the struct as one object without white space, the fields in
  the order of their declaration. A string is written between double quotes; the bytes
  \<open>"\<close> and \<open>\\<close>, the control characters and (as \<open>Marshal\<close> escapes HTML)
  \<open><\<close>, \<open>>\<close> and \<open>&\<close> are escaped, every byte that is not part of a valid UTF-8
  encoding is replaced by the escape of U+FFFD, and U+2028 and U+2029 are escaped.
\<close>

definition cont :: "char \<Rightarrow> bool" where
  \<comment> \<open>a continuation byte of UTF-8\<close>
  "cont c = (CHR 0x80 \<le> c \<and> c \<le> CHR 0xBF)"

definition second_ok :: "char \<Rightarrow> char \<Rightarrow> bool" where
  \<comment> \<open>the range of the second byte, which depends on the first: no overlong encoding,
      no surrogate, nothing beyond U+10FFFF\<close>
  "second_ok b0 b1 =
     (if b0 = CHR 0xE0 then CHR 0xA0 \<le> b1 \<and> b1 \<le> CHR 0xBF
      else if b0 = CHR 0xED then CHR 0x80 \<le> b1 \<and> b1 \<le> CHR 0x9F
      else if b0 = CHR 0xF0 then CHR 0x90 \<le> b1 \<and> b1 \<le> CHR 0xBF
      else if b0 = CHR 0xF4 then CHR 0x80 \<le> b1 \<and> b1 \<le> CHR 0x8F
      else cont b1)"

definition rune_width :: "string \<Rightarrow> nat" where
  \<comment> \<open>\<open>utf8.DecodeRuneInString\<close> on a string that starts with a byte beyond ASCII: the
      size of the encoding the string starts with, 0 when it starts with none\<close>
  "rune_width s =
     (case s of
        b0 # b1 # r1 \<Rightarrow>
          if CHR 0xC2 \<le> b0 \<and> b0 \<le> CHR 0xDF then (if cont b1 then 2 else 0)
          else if CHR 0xE0 \<le> b0 \<and> b0 \<le> CHR 0xEF then
            (case r1 of
               b2 # r2 \<Rightarrow> if second_ok b0 b1 \<and> cont b2 then 3 else 0
             | [] \<Rightarrow> 0)
          else if CHR 0xF0 \<le> b0 \<and> b0 \<le> CHR 0xF4 then
            (case r1 of
               b2 # b3 # r3 \<Rightarrow> if second_ok b0 b1 \<and> cont b2 \<and> cont b3 then 4 else 0
             | _ \<Rightarrow> 0)
          else 0
      | _ \<Rightarrow> 0)"

definition hex :: "nat \<Rightarrow> char" where
  "hex n = ''0123456789abcdef'' ! n"

definition htmlSafe :: "char \<Rightarrow> bool" where
  \<comment> \<open>\<open>htmlSafeSet\<close>: the ASCII bytes written as they are\<close>
  "htmlSafe c =
     (CHR 0x20 \<le> c \<and> c < CHR 0x80 \<and>
      c \<notin> set [CHR 0x22, CHR 0x5C, CHR ''<'', CHR ''>'', CHR ''&''])"

definition escape_byte :: "char \<Rightarrow> string" where
  "escape_byte c =
     (if c = CHR 0x5C \<or> c = CHR 0x22 then [CHR 0x5C, c]
      else if c = CHR 0x08 then [CHR 0x5C, CHR ''b'']
      else if c = CHR 0x0C then [CHR 0x5C, CHR ''f'']
      else if c = CHR 0x0A then [CHR 0x5C, CHR ''n'']
      else if c = CHR 0x0D then [CHR 0x5C, CHR ''r'']
      else if c = CHR 0x09 then [CHR 0x5C, CHR ''t'']
      else [CHR 0x5C, CHR ''u'', CHR ''0'', CHR ''0'',
            hex (of_char c div 16), hex (of_char c mod 16)])"

lemma rune_width_le: "rune_width s \<le> length s"
  by (auto simp: rune_width_def split: list.splits)

function appendString :: "string \<Rightarrow> string" where
  \<comment> \<open>the bytes between the quotes\<close>
  "appendString [] = []"
| "appendString (c # cs) =
     (if c < CHR 0x80 then
        (if htmlSafe c then [c] else escape_byte c) @ appendString cs
      else
        (let n = rune_width (c # cs) in
         if n = 0 then [CHR 0x5C, CHR ''u'', CHR ''f'', CHR ''f'', CHR ''f'', CHR ''d''] @ appendString cs
         else if take n (c # cs) = [CHR 0xE2, CHR 0x80, CHR 0xA8]
         then [CHR 0x5C, CHR ''u'', CHR ''2'', CHR ''0'', CHR ''2'', CHR ''8''] @
              appendString (drop n (c # cs))
         else if take n (c # cs) = [CHR 0xE2, CHR 0x80, CHR 0xA9]
         then [CHR 0x5C, CHR ''u'', CHR ''2'', CHR ''0'', CHR ''2'', CHR ''9''] @
              appendString (drop n (c # cs))
         else take n (c # cs) @ appendString (drop n (c # cs))))"
  by pat_completeness auto
termination
  by (relation "measure length") auto

definition quote :: "string \<Rightarrow> string" where
  "quote s = [CHR 0x22] @ appendString s @ [CHR 0x22]"

function digits_of :: "nat \<Rightarrow> string" where
  "digits_of n =
     (if n < 10 then [char_of (48 + n)]
      else digits_of (n div 10) @ [char_of (48 + n mod 10)])"
  by pat_completeness auto
termination
  by (relation "measure id") auto

definition itoa :: "int \<Rightarrow> string" where
  \<comment> \<open>an \<open>int64\<close> in decimal\<close>
  "itoa i = (if i < 0 then CHR ''-'' # digits_of (nat (- i)) else digits_of (nat i))"

definition Marshal :: "session \<Rightarrow> string" where
  \<comment> \<open>\<open>json.Marshal(s)\<close>; for a struct of strings and an \<open>int64\<close> it returns no error\<close>
  "Marshal s =
     [CHR ''{''] @ quote ''start'' @ [CHR '':''] @ quote (Start s) @
     [CHR '',''] @ quote ''end'' @ [CHR '':''] @ quote (End s) @
     [CHR '',''] @ quote ''app'' @ [CHR '':''] @ quote (session.App s) @
     [CHR '',''] @ quote ''title'' @ [CHR '':''] @ quote (session.Title s) @
     [CHR '',''] @ quote ''activity'' @ [CHR '':''] @ quote (session.Activity s) @
     [CHR '',''] @ quote ''durationSec'' @ [CHR '':''] @ itoa (DurationSec s) @
     [CHR ''}'']"

section \<open>The writer of the JSON array file\<close>

definition logDir :: string where
  "logDir = ''/Users/kmg2022-40/Desktop/activitylog/log''"

record jsonArrayWriter =
  path :: string
  jfile :: os_file
  jbuf :: bufio_writer
  wroteFirst :: bool

text \<open>
  The fields \<open>jfile\<close> and \<open>jbuf\<close> are the fields \<open>f\<close> and \<open>w\<close> of the source.
  \<open>newJSONArrayWriter\<close> takes what the environment decides: whether \<open>os.MkdirAll\<close> and
  \<open>os.Create\<close> succeed, the start time as \<open>Format("20060102_150405")\<close> renders it, and
  the outcomes of the system calls on the new file. \<open>None\<close> is the error return.
\<close>

definition newJSONArrayWriter :: "bool \<Rightarrow> bool \<Rightarrow> string \<Rightarrow> io list \<Rightarrow> jsonArrayWriter option" where
  "newJSONArrayWriter mkdir_ok create_ok stamp fs =
     (if \<not> mkdir_ok then None
      else if \<not> create_ok then None
      else
        let fl = \<lparr>data = [], faults = fs, closed = False\<rparr>;
            b = \<lparr>buf = [], err = False\<rparr>
        in case bufio_Write (b, fl) [CHR ''['', CHR 0x0A] of (b1, fl1, e1) \<Rightarrow>
             if e1 then None
             else case Flush (b1, fl1) of (b2, fl2, e2) \<Rightarrow>
               if e2 then None
               else Some \<lparr>path = logDir @ ''/'' @ ''activity_'' @ stamp @ ''.json'',
                          jfile = fl2, jbuf = b2, wroteFirst = False\<rparr>)"

definition AppendSession :: "jsonArrayWriter \<Rightarrow> session \<Rightarrow> jsonArrayWriter \<times> bool" where
  \<comment> \<open>the writer afterwards, and whether an error is returned\<close>
  "AppendSession j s =
     (let b = Marshal s in
      case (if wroteFirst j
            then (case bufio_Write (jbuf j, jfile j) [CHR '','', CHR 0x0A] of
                    (b1, fl1, e1) \<Rightarrow> (j\<lparr>jbuf := b1, jfile := fl1\<rparr>, e1))
            else (j\<lparr>wroteFirst := True\<rparr>, False)) of
        (j1, e1) \<Rightarrow>
          if e1 then (j1, True)
          else case bufio_Write (jbuf j1, jfile j1) b of (b2, fl2, e2) \<Rightarrow>
            if e2 then (j1\<lparr>jbuf := b2, jfile := fl2\<rparr>, True)
            else case Flush (b2, fl2) of (b3, fl3, e3) \<Rightarrow>
              if e3 then (j1\<lparr>jbuf := b3, jfile := fl3\<rparr>, True)
              else case file_Sync fl3 of (fl4, e4) \<Rightarrow> (j1\<lparr>jbuf := b3, jfile := fl4\<rparr>, e4))"

definition Close :: "jsonArrayWriter \<Rightarrow> jsonArrayWriter \<times> bool" where
  "Close j =
     (case bufio_Write (jbuf j, jfile j) [CHR 0x0A, CHR '']'', CHR 0x0A] of (b1, fl1, e1) \<Rightarrow>
        if e1 then (j\<lparr>jbuf := b1, jfile := fl1\<rparr>, True)
        else case Flush (b1, fl1) of (b2, fl2, e2) \<Rightarrow>
          if e2 then (j\<lparr>jbuf := b2, jfile := fl2\<rparr>, True)
          else case file_Close fl2 of (fl3, e3) \<Rightarrow> (j\<lparr>jbuf := b2, jfile := fl3\<rparr>, e3))"

section \<open>The polling loop of \<open>main\<close>\<close>

text \<open>
  What \<open>main\<close> does to the outside is kept as a list, in order: the lines it prints,
  and its calls of the writer's methods with the sessions handed over and whether an
  error came back.
\<close>

datatype effect =
    Banner
  | FailedToPrepare
  | LoggingTo string
  | Warn
  | StartLine record_t
  | EndLine record_t session
  | LogError
  | EndLineOnExit record_t session
  | LogErrorOnExit
  | CloseError
  | StoppedLine
  | AppendCall session bool
  | CloseCall bool

text \<open>
  The events of the \<open>select\<close>: a tick of the ticker, with what
  \<open>frontmostAppAndTitleWithBrowserTabs\<close> returns (\<open>None\<close> is its error) and the
  \<open>time.Now()\<close> read after it, or a signal, with the \<open>time.Now()\<close> read on it.
\<close>

datatype event = Tick "(string \<times> string) option" instant | Signal instant

record main_state =
  lastRec :: "record_t option"
  sessStart :: instant
  jw :: jsonArrayWriter
  trace :: "effect list"

text \<open>The field \<open>lastRec\<close> is the variable \<open>last\<close> of the source.\<close>

definition on_tick ::
  "(string \<Rightarrow> string) \<Rightarrow> (instant \<Rightarrow> string) \<Rightarrow> main_state \<Rightarrow> (string \<times> string) option \<Rightarrow> instant \<Rightarrow> main_state"
where
  "on_tick U F st sample now =
     (case sample of
        None \<Rightarrow> st\<lparr>trace := trace st @ [Warn]\<rparr>
      | Some (app, title) \<Rightarrow>
          let activity = classifyActivity U app title;
              cur = \<lparr>record_t.App = app, record_t.Title = title, record_t.Activity = activity,
                     record_t.Timestamp = now\<rparr>
          in case lastRec st of
               None \<Rightarrow>
                 st\<lparr>lastRec := Some cur, sessStart := now, trace := trace st @ [StartLine cur]\<rparr>
             | Some l \<Rightarrow>
                 if changed (lastRec st) cur then
                   (let s = sessionFrom F l (sessStart st) now in
                    case AppendSession (jw st) s of (j, e) \<Rightarrow>
                      st\<lparr>jw := j, lastRec := Some cur, sessStart := now,
                         trace := trace st @
                           [AppendCall s e, (if e then LogError else EndLine l s), StartLine cur]\<rparr>)
                 else st)"

definition on_signal :: "(instant \<Rightarrow> string) \<Rightarrow> main_state \<Rightarrow> instant \<Rightarrow> main_state" where
  "on_signal F st now =
     (case lastRec st of
        None \<Rightarrow> st
      | Some l \<Rightarrow>
          let s = sessionFrom F l (sessStart st) now in
          case AppendSession (jw st) s of (j, e) \<Rightarrow>
            st\<lparr>jw := j,
               trace := trace st @
                 [AppendCall s e, (if e then LogErrorOnExit else EndLineOnExit l s)]\<rparr>)"

text \<open>
  The loop runs until a signal comes. On a finite list of events it either has left
  the loop (\<open>Broke\<close>, whatever events follow the signal), or is still in it, waiting
  (\<open>Running\<close>).
\<close>

datatype progress = Running main_state | Broke main_state

fun loop :: "(string \<Rightarrow> string) \<Rightarrow> (instant \<Rightarrow> string) \<Rightarrow> main_state \<Rightarrow> event list \<Rightarrow> progress" where
  "loop U F st [] = Running st"
| "loop U F st (Tick sample now # es) = loop U F (on_tick U F st sample now) es"
| "loop U F st (Signal now # es) = Broke (on_signal F st now)"

definition after_loop :: "progress \<Rightarrow> progress" where
  \<comment> \<open>the statements of \<open>main\<close> after the loop\<close>
  "after_loop pr =
     (case pr of
        Running st \<Rightarrow> Running st
      | Broke st \<Rightarrow>
          (case Close (jw st) of (j, e) \<Rightarrow>
             Broke (st\<lparr>jw := j,
                       trace := trace st @ [CloseCall e] @ (if e then [CloseError] else []) @
                         [StoppedLine]\<rparr>)))"

definition start_state :: "jsonArrayWriter \<Rightarrow> main_state" where
  \<comment> \<open>the variables of \<open>main\<close> when the loop is entered; \<open>sessStart\<close> is the zero time\<close>
  "start_state j =
     \<lparr>lastRec = None, sessStart = 0, jw = j, trace = [Banner, LoggingTo (path j)]\<rparr>"

datatype outcome = Exit1 "effect list" | Going main_state | Exit0 main_state

definition main ::
  "(string \<Rightarrow> string) \<Rightarrow> (instant \<Rightarrow> string) \<Rightarrow> bool \<Rightarrow> bool \<Rightarrow> string \<Rightarrow> io list \<Rightarrow> event list \<Rightarrow> outcome"
where
  "main U F mkdir_ok create_ok stamp fs events =
     (case newJSONArrayWriter mkdir_ok create_ok stamp fs of
        None \<Rightarrow> Exit1 [Banner, FailedToPrepare]
      | Some j \<Rightarrow>
          (case after_loop (loop U F (start_state j) events) of
             Running st \<Rightarrow> Going st
           | Broke st \<Rightarrow> Exit0 st))"

definition appended :: "effect list \<Rightarrow> session list" where
  \<comment> \<open>the sessions handed to \<open>AppendSession\<close>, in order\<close>
  "appended tr = concat (map (\<lambda>x. case x of AppendCall s e \<Rightarrow> [s] | _ \<Rightarrow> []) tr)"

definition state_of :: "progress \<Rightarrow> main_state" where
  "state_of pr = (case pr of Running st \<Rightarrow> st | Broke st \<Rightarrow> st)"

subsection \<open>What the specification counts\<close>

text \<open>
  The records the specification expects from a run, counted from its words: none for
  the first sample, none for a sample equal to the one before it in application and
  title, none for a failed sample, one for every sample that differs from the one
  before it, and one for the signal when a session is open. \<open>prev\<close> is the last
  sample taken.
\<close>

fun transitions :: "(string \<times> string) option \<Rightarrow> event list \<Rightarrow> nat" where
  "transitions prev [] = 0"
| "transitions prev (Tick None now # es) = transitions prev es"
| "transitions prev (Tick (Some p) now # es) =
     (if prev = None \<or> prev = Some p then 0 else 1) + transitions (Some p) es"
| "transitions prev (Signal now # es) = (if prev = None then 0 else 1)"

definition same_samples :: "string \<times> string \<Rightarrow> event list \<Rightarrow> bool" where
  \<comment> \<open>every event is a tick, and every sample taken is \<open>p\<close>\<close>
  "same_samples p es =
     list_all (\<lambda>e. case e of Tick None now \<Rightarrow> True | Tick (Some q) now \<Rightarrow> q = p
                    | Signal now \<Rightarrow> False) es"

definition sample_of :: "main_state \<Rightarrow> (string \<times> string) option" where
  "sample_of st = map_option (\<lambda>l. (record_t.App l, record_t.Title l)) (lastRec st)"

definition tracked :: "(string \<Rightarrow> string) \<Rightarrow> main_state \<Rightarrow> bool" where
  \<comment> \<open>the open session carries the label of its own application and title, as every
      record built by a tick does\<close>
  "tracked U st =
     (case lastRec st of
        None \<Rightarrow> True
      | Some l \<Rightarrow> record_t.Activity l = classifyActivity U (record_t.App l) (record_t.Title l))"

section \<open>The Slack messages\<close>

definition messageDir :: string where
  "messageDir = ''/Users/kmg2022-40/Desktop/activitylog/Message''"

record MessageEvent =
  SubType :: string
  Text :: string
  User :: string
  Channel :: string
  ThreadTimeStamp :: string
  TimeStamp :: string

record messageEntry =
  Timestamp :: string
  Source :: string
  Direction :: string
  Title :: string
  Text :: string
  Meta :: "string \<rightharpoonup> string"

text \<open>
  The message directory maps a path to the entry that \<open>enc.Encode\<close> wrote to the file
  (\<open>None\<close> when the file was created and the encoding failed); the layout of the
  indented JSON is not modelled. \<open>save_io\<close> is what the environment decides for one
  call of \<open>saveMessageJSON\<close>: the time as \<open>Format("20060102_150405.000")\<close> renders it, and
  whether \<open>os.MkdirAll\<close>, \<open>os.Create\<close> and \<open>Encode\<close> succeed.
\<close>

type_synonym message_files = "string \<rightharpoonup> messageEntry option"

record save_io =
  sv_ts :: string
  sv_mkdir :: bool
  sv_create :: bool
  sv_encode :: bool

definition safe :: "string \<Rightarrow> string" where
  "safe s =
     map (\<lambda>c. if c = CHR '' '' then CHR ''_''
              else if c = CHR ''/'' \<or> c = CHR 0x5C then CHR ''-'' else c) s"

definition message_path :: "string \<Rightarrow> string \<Rightarrow> string" where
  \<comment> \<open>\<open>filepath.Join(messageDir, fname)\<close>; \<open>fname\<close> holds no separator\<close>
  "message_path ts title = messageDir @ ''/'' @ ''msg_'' @ ts @ ''_'' @ safe title @ ''.json''"

definition saveMessageJSON :: "save_io \<Rightarrow> messageEntry \<Rightarrow> message_files \<Rightarrow> message_files \<times> bool" where
  "saveMessageJSON env m fs =
     (if \<not> sv_mkdir env then (fs, True)
      else
        let p = message_path (sv_ts env) (messageEntry.Title m) in
        if \<not> sv_create env then (fs, True)
        else if sv_encode env then (fs(p \<mapsto> Some m), False)
        else (fs(p \<mapsto> None), True))"

datatype slack_effect = DropSubtype | DropEmptyText | MsgLine | DropNotSelf | SaveError

record slack_state =
  msg_files :: message_files
  printed :: "slack_effect list"

definition say :: "bool \<Rightarrow> slack_effect \<Rightarrow> slack_state \<Rightarrow> slack_state" where
  \<comment> \<open>a line printed only when \<open>debug\<close> is set\<close>
  "say debug x st = (if debug then st\<lparr>printed := printed st @ [x]\<rparr> else st)"

definition onMessageEvent ::
  "string \<Rightarrow> bool \<Rightarrow> bool \<Rightarrow> string \<Rightarrow> save_io \<Rightarrow> MessageEvent \<Rightarrow> slack_state \<Rightarrow> slack_state"
where
  \<comment> \<open>the case \<open>*slackevents.MessageEvent\<close> of the handler in \<open>startSlackIngest\<close>; \<open>now\<close>
      is \<open>time.Now().Format(time.RFC3339)\<close>\<close>
  "onMessageEvent self logAll debug now env ev st =
     (if SubType ev \<noteq> [] then say debug DropSubtype st
      else if TrimSpace (MessageEvent.Text ev) = [] then say debug DropEmptyText st
      else
        let st1 = say debug MsgLine st in
        if \<not> logAll \<and> User ev \<noteq> self then say debug DropNotSelf st1
        else
          let m = \<lparr>Timestamp = now, Source = ''Slack'', Direction = ''sent'',
                   Title = Channel ev, Text = MessageEvent.Text ev,
                   Meta = [''channelId'' \<mapsto> Channel ev, ''threadTs'' \<mapsto> ThreadTimeStamp ev,
                           ''userId'' \<mapsto> User ev, ''ts'' \<mapsto> TimeStamp ev]\<rparr>
          in case saveMessageJSON env m (msg_files st1) of (fs, e) \<Rightarrow>
               st1\<lparr>msg_files := fs, printed := printed st1 @ (if e then [SaveError] else [])\<rparr>)"

section \<open>Properties\<close>

subsection \<open>The classifier\<close>

lemmas rule_defs =
  rule_mail_def rule_editor_def rule_source_file_def rule_communication_def rule_browser_def
  rule_browser_docs_def browser_keywords_def rule_documents_def rule_spreadsheet_def
  rule_slides_def rule_files_def rule_media_def

lemma classifyActivity_first_match:
  "classifyActivity U app title = first_match rule_table (ToLower U app) (ToLower U title)"
  by (simp add: classifyActivity_def rule_table_def Let_def rule_defs del: hasAny.simps)

lemma first_match_in: "first_match rs a t \<in> insert label_other (snd ` set rs)"
  by (induction rs a t rule: first_match.induct) auto

lemma first_match_none:
  "list_all (\<lambda>(p, l). \<not> p a t) rs \<Longrightarrow> first_match rs a t = label_other"
  by (induction rs a t rule: first_match.induct) auto

lemma classifyActivity_in_categories: "classifyActivity U app title \<in> set categories"
  using first_match_in [of rule_table "ToLower U app" "ToLower U title"]
  by (auto simp: classifyActivity_first_match rule_table_def categories_def)

lemma distinct_categories: "distinct categories"
  by (simp add: categories_def label_mail_def label_coding_def label_communication_def
      label_research_def label_browsing_def label_documents_def label_spreadsheet_def
      label_slides_def label_files_def label_media_def label_other_def char_of_eq_iff)

lemma label_mail_neq_coding: "label_mail \<noteq> label_coding"
  by (simp add: label_mail_def label_coding_def char_of_eq_iff)

lemma lower_byte_idem: "lower_byte (lower_byte c) = lower_byte c"
  by (auto simp: lower_byte_def less_eq_char_def)

lemma lower_byte_ascii: "c < CHR 0x80 \<Longrightarrow> lower_byte c < CHR 0x80"
  by (auto simp: lower_byte_def less_eq_char_def less_char_def)

lemma ToLower_ascii_idem: "is_ascii s \<Longrightarrow> ToLower U (ToLower U s) = ToLower U s"
  by (auto simp: ToLower_def is_ascii_def list_all_iff lower_byte_idem lower_byte_ascii)

lemma classifyActivity_lowered:
  assumes "ToLower U (ToLower U app) = ToLower U app"
    and "ToLower U (ToLower U title) = ToLower U title"
  shows "classifyActivity U app title = classifyActivity U (ToLower U app) (ToLower U title)"
  by (simp add: classifyActivity_def assms)

text \<open>
  C7. The editor rule is the second of the table and the browser rule the fifth, so an
  application name that matches the editor rule is labelled as coding whatever the
  title holds, browser keywords included, unless the mail rule, which is the first,
  matches too. (As stated the claim fails: Visual Studio Code showing a title with
  both "gmail" and "docs" is labelled as mail.)
\<close>

theorem editor_rule_wins_over_browser_rule:
  "rule_editor (ToLower U app) (ToLower U title) \<Longrightarrow>
   \<not> rule_mail (ToLower U app) (ToLower U title) \<Longrightarrow>
   classifyActivity U app title = label_coding"
  by (simp add: classifyActivity_first_match rule_table_def)

theorem editor_rule_wins_over_browser_rule_witness:
  "hasAny (ToLower (\<lambda>s. s) ''Qiita - StackOverflow docs'') browser_keywords \<and>
   classifyActivity (\<lambda>s. s) ''Visual Studio Code'' ''Qiita - StackOverflow docs'' = label_coding"
proof -
  have e: "rule_editor (ToLower (\<lambda>s. s) ''Visual Studio Code'')
             (ToLower (\<lambda>s. s) ''Qiita - StackOverflow docs'')"
    by code_simp
  have m: "\<not> rule_mail (ToLower (\<lambda>s. s) ''Visual Studio Code'')
             (ToLower (\<lambda>s. s) ''Qiita - StackOverflow docs'')"
    by code_simp
  have k: "hasAny (ToLower (\<lambda>s. s) ''Qiita - StackOverflow docs'') browser_keywords"
    by code_simp
  from editor_rule_wins_over_browser_rule [OF e m] k show ?thesis by simp
qed

theorem editor_rule_counterexample:
  "rule_editor (ToLower (\<lambda>s. s) ''Visual Studio Code'') (ToLower (\<lambda>s. s) ''gmail docs'') \<and>
   hasAny (ToLower (\<lambda>s. s) ''gmail docs'') browser_keywords \<and>
   classifyActivity (\<lambda>s. s) ''Visual Studio Code'' ''gmail docs'' = label_mail \<and>
   label_mail \<noteq> label_coding"
proof (intro conjI)
  show "rule_editor (ToLower (\<lambda>s. s) ''Visual Studio Code'') (ToLower (\<lambda>s. s) ''gmail docs'')"
    by code_simp
  show "hasAny (ToLower (\<lambda>s. s) ''gmail docs'') browser_keywords"
    by code_simp
  have "rule_mail (ToLower (\<lambda>s. s) ''Visual Studio Code'') (ToLower (\<lambda>s. s) ''gmail docs'')"
    by code_simp
  then show "classifyActivity (\<lambda>s. s) ''Visual Studio Code'' ''gmail docs'' = label_mail"
    by (simp add: classifyActivity_first_match rule_table_def)
  show "label_mail \<noteq> label_coding"
    by (rule label_mail_neq_coding)
qed

text \<open>
  C9. \<open>classifyActivity\<close> is a function of its inputs alone and returns a value for
  every pair: one of the eleven labels of \<open>categories\<close>. Equal inputs give equal
  results. Matching is case-insensitive: inputs that lower to the same strings get the
  same label, and the label of a pair is the label of its lowered pair (for ASCII
  inputs always; for others when \<open>strings.ToLower\<close> leaves its own result unchanged).
  The result is that of the first matching rule of the table, and the default label
  when no rule matches.
\<close>

theorem classifyActivity_total_deterministic:
  "classifyActivity U app title \<in> set categories \<and>
   (app = app' \<and> title = title' \<longrightarrow>
      classifyActivity U app title = classifyActivity U app' title') \<and>
   (ToLower U app = ToLower U app' \<and> ToLower U title = ToLower U title' \<longrightarrow>
      classifyActivity U app title = classifyActivity U app' title') \<and>
   (is_ascii app \<and> is_ascii title \<longrightarrow>
      classifyActivity U app title = classifyActivity U (ToLower U app) (ToLower U title)) \<and>
   (ToLower U (ToLower U app) = ToLower U app \<and>
    ToLower U (ToLower U title) = ToLower U title \<longrightarrow>
      classifyActivity U app title = classifyActivity U (ToLower U app) (ToLower U title)) \<and>
   classifyActivity U app title = first_match rule_table (ToLower U app) (ToLower U title) \<and>
   (list_all (\<lambda>(p, l). \<not> p (ToLower U app) (ToLower U title)) rule_table \<longrightarrow>
      classifyActivity U app title = label_other)"
proof (intro conjI impI)
  show "classifyActivity U app title \<in> set categories"
    by (rule classifyActivity_in_categories)
next
  assume "app = app' \<and> title = title'"
  then show "classifyActivity U app title = classifyActivity U app' title'" by simp
next
  assume "ToLower U app = ToLower U app' \<and> ToLower U title = ToLower U title'"
  then show "classifyActivity U app title = classifyActivity U app' title'"
    by (simp add: classifyActivity_first_match)
next
  assume "is_ascii app \<and> is_ascii title"
  then show "classifyActivity U app title = classifyActivity U (ToLower U app) (ToLower U title)"
    by (intro classifyActivity_lowered ToLower_ascii_idem) simp_all
next
  assume "ToLower U (ToLower U app) = ToLower U app \<and>
    ToLower U (ToLower U title) = ToLower U title"
  then show "classifyActivity U app title = classifyActivity U (ToLower U app) (ToLower U title)"
    by (intro classifyActivity_lowered) simp_all
next
  show "classifyActivity U app title = first_match rule_table (ToLower U app) (ToLower U title)"
    by (rule classifyActivity_first_match)
next
  assume "list_all (\<lambda>(p, l). \<not> p (ToLower U app) (ToLower U title)) rule_table"
  then show "classifyActivity U app title = label_other"
    by (simp only: classifyActivity_first_match first_match_none)
qed

theorem classifyActivity_total_deterministic_witness:
  "classifyActivity (\<lambda>s. s) ''SAFARI'' ''Qiita'' = classifyActivity (\<lambda>s. s) ''safari'' ''qiita'' \<and>
   classifyActivity (\<lambda>s. s) ''Terminal'' ''zsh'' = label_other"
proof -
  have a: "is_ascii ''SAFARI'' \<and> is_ascii ''Qiita''" by code_simp
  have l: "ToLower (\<lambda>s. s) ''SAFARI'' = ''safari''" "ToLower (\<lambda>s. s) ''Qiita'' = ''qiita''"
    by code_simp+
  have t: "ToLower (\<lambda>s. s) ''Terminal'' = ''terminal''" "ToLower (\<lambda>s. s) ''zsh'' = ''zsh''"
    by code_simp+
  have n: "list_all (\<lambda>(p, l). \<not> p (ToLower (\<lambda>s. s) ''Terminal'') (ToLower (\<lambda>s. s) ''zsh''))
             rule_table"
    unfolding t by (simp add: rule_table_def rule_defs Contains_def sublist_code)
  from classifyActivity_total_deterministic [of "\<lambda>s. s" "''SAFARI''" "''Qiita''"] a
  have "classifyActivity (\<lambda>s. s) ''SAFARI'' ''Qiita'' =
          classifyActivity (\<lambda>s. s) (ToLower (\<lambda>s. s) ''SAFARI'') (ToLower (\<lambda>s. s) ''Qiita'')"
    by blast
  moreover from classifyActivity_total_deterministic [of "\<lambda>s. s" "''Terminal''" "''zsh''"] n
  have "classifyActivity (\<lambda>s. s) ''Terminal'' ''zsh'' = label_other"
    by blast
  ultimately show ?thesis by (simp only: l)
qed

subsection \<open>Durations\<close>

lemma int64_id: "- (2 ^ 63) \<le> x \<Longrightarrow> x < 2 ^ 63 \<Longrightarrow> int64 x = x"
  by (simp add: int64_def)

lemma int64_range: "- (2 ^ 63) \<le> int64 x \<and> int64 x < 2 ^ 63"
  by (simp add: int64_def)

lemma uint64_id: "0 \<le> x \<Longrightarrow> x < 2 ^ 64 \<Longrightarrow> uint64 x = x"
  by (simp add: uint64_def)

lemma lessThanHalf_small:
  "0 \<le> r \<Longrightarrow> r < 1000000000 \<Longrightarrow> lessThanHalf r 1000000000 = (r < 500000000)"
  by (auto simp: lessThanHalf_def uint64_def)

lemma Sub_range: "minDuration \<le> Sub t u \<and> Sub t u \<le> maxDuration"
  by (simp add: Sub_def minDuration_def maxDuration_def)

lemma Round_Second_neg:
  assumes "d < 0" "minDuration \<le> d"
  shows "Round d Second < 0 \<or> Round d Second = 0"
proof -
  let ?m = "1000000000 :: int"
  have r: "d smod ?m = - ((- d) mod ?m)"
    using assms by (simp add: signed_modulo_int_def sgn_if)
  define r where "r = (- d) mod ?m"
  have rb: "0 \<le> r" "r < ?m" "r \<le> - d"
    using assms by (auto simp: r_def intro: zmod_le_nonneg_dividend)
  have i1: "int64 r = r" using rb by (intro int64_id) auto
  have i2: "int64 (d + r) = d + r"
    using rb assms by (intro int64_id) (auto simp: minDuration_def)
  have lt: "lessThanHalf r ?m = (r < 500000000)" using rb by (simp add: lessThanHalf_small)
  show ?thesis
  proof (cases "r < 500000000")
    case True
    then have "Round d Second = d + r"
      using assms i1 i2 lt by (simp add: Round_def Second_def r r_def [symmetric] Let_def)
    with rb show ?thesis by auto
  next
    case False
    then have "Round d Second = (if int64 (d - ?m + r) < d then int64 (d - ?m + r) else minDuration)"
      using assms i1 lt by (simp add: Round_def Second_def r r_def [symmetric] Let_def)
    with assms show ?thesis by (auto simp: minDuration_def)
  qed
qed

lemma Round_Second_nonneg:
  assumes "0 \<le> d" "d \<le> maxDuration"
  shows "0 \<le> Round d Second \<and> Round d Second \<le> maxDuration"
proof -
  let ?m = "1000000000 :: int"
  have r: "d smod ?m = d mod ?m"
    using assms by (simp add: signed_modulo_int_def sgn_if)
  define r where "r = d mod ?m"
  have rb: "0 \<le> r" "r < ?m" "r \<le> d"
    using assms by (auto simp: r_def intro: zmod_le_nonneg_dividend)
  have i2: "int64 (d - r) = d - r"
    using rb assms by (intro int64_id) (auto simp: maxDuration_def)
  have lt: "lessThanHalf r ?m = (r < 500000000)" using rb by (simp add: lessThanHalf_small)
  show ?thesis
  proof (cases "r < 500000000")
    case True
    then have "Round d Second = d - r"
      using assms i2 lt by (simp add: Round_def Second_def r r_def [symmetric] Let_def)
    with rb assms show ?thesis by auto
  next
    case False
    then have "Round d Second = (if int64 (d + ?m - r) > d then int64 (d + ?m - r) else maxDuration)"
      using assms lt by (simp add: Round_def Second_def r r_def [symmetric] Let_def)
    with assms int64_range [of "d + ?m - r"] show ?thesis by (auto simp: maxDuration_def)
  qed
qed

lemma Round_Second_exact:
  assumes "0 \<le> d" "d < 9223372036500000000"
  shows "Round d Second = ((d + 500000000) div 1000000000) * 1000000000"
proof -
  let ?m = "1000000000 :: int"
  have r: "d smod ?m = d mod ?m"
    using assms by (simp add: signed_modulo_int_def sgn_if)
  define r where "r = d mod ?m"
  define q where "q = d div ?m"
  have d: "d = q * ?m + r" by (simp add: q_def r_def)
  have rb: "0 \<le> r" "r < ?m" "r \<le> d"
    using assms by (auto simp: r_def intro: zmod_le_nonneg_dividend)
  have i2: "int64 (d - r) = d - r"
    using rb assms by (intro int64_id) auto
  have lt: "lessThanHalf r ?m = (r < 500000000)" using rb by (simp add: lessThanHalf_small)
  have split: "(d + 500000000) div ?m = q + (r + 500000000) div ?m"
    unfolding d by (simp add: add.assoc)
  show ?thesis
  proof (cases "r < 500000000")
    case True
    then have "Round d Second = d - r"
      using assms i2 lt by (simp add: Round_def Second_def r r_def [symmetric] Let_def)
    moreover have "(r + 500000000) div ?m = 0" using True rb by simp
    ultimately show ?thesis using split d by simp
  next
    case False
    have "d - r \<le> 9223372035000000000"
    proof -
      have "q * ?m < 9223372036 * ?m" using assms False d by simp
      then have "q < 9223372036" by (simp only: mult_less_cancel_right)
      then show ?thesis using d by simp
    qed
    then have i3: "int64 (d + ?m - r) = d + ?m - r"
      using rb assms by (intro int64_id) auto
    have "Round d Second = d + ?m - r"
      using assms lt False i3 rb by (simp add: Round_def Second_def r r_def [symmetric] Let_def)
    moreover have "(r + 500000000) div ?m = 1"
    proof -
      have "(r + 500000000) div ?m = ((r - 500000000) + 1 * ?m) div ?m" by simp
      also have "\<dots> = (r - 500000000) div ?m + 1" by (simp only: div_mult_self1)
      also have "(r - 500000000) div ?m = 0" using False rb by simp
      finally show ?thesis by simp
    qed
    ultimately show ?thesis using split d by simp
  qed
qed

lemma round_div_Second:
  "round (real_of_int d / 1000000000) = (d + 500000000) div 1000000000"
proof -
  have "real_of_int d / 1000000000 + 1 / 2 = (real_of_int d + 500000000) / 1000000000"
    by (simp add: add_divide_distrib)
  also have "\<dots> = real_of_int (d + 500000000) / real_of_int 1000000000"
    by simp
  finally have "round (real_of_int d / 1000000000) = \<lfloor>real_of_int (d + 500000000) / real_of_int 1000000000\<rfloor>"
    by (simp only: round_def)
  also have "\<dots> = (d + 500000000) div 1000000000"
    by (rule floor_divide_of_int_eq)
  finally show ?thesis .
qed


lemma DurationSec_eq:
  "DurationSec (sessionFrom F r s e) =
     int64 ((if Round (Sub e s) Second < 0 then 0 else Round (Sub e s) Second) sdiv Second)"
  by (simp add: sessionFrom_def Let_def)

lemma clamp_div:
  assumes "0 \<le> dur" "dur \<le> maxDuration"
  shows "int64 (dur sdiv Second) = dur div 1000000000"
proof -
  have sd: "dur sdiv Second = dur div 1000000000"
    using assms by (simp add: signed_divide_int_def Second_def sgn_if)
  have q: "0 \<le> dur div 1000000000" using assms by simp
  have "dur = dur div 1000000000 * 1000000000 + dur mod 1000000000" by simp
  moreover have "0 \<le> dur mod 1000000000" by simp
  ultimately have "dur div 1000000000 \<le> dur" using q by linarith
  then show ?thesis
    using assms sd q by (simp add: int64_id maxDuration_def)
qed

lemma clamped_Round_range:
  "0 \<le> (if Round (Sub e s) Second < 0 then 0 else Round (Sub e s) Second) \<and>
   (if Round (Sub e s) Second < 0 then 0 else Round (Sub e s) Second) \<le> maxDuration"
proof (cases "Sub e s < 0")
  case True
  with Round_Second_neg [of "Sub e s"] Sub_range [of e s] show ?thesis
    by (auto simp: maxDuration_def)
next
  case False
  with Round_Second_nonneg [of "Sub e s"] Sub_range [of e s] show ?thesis
    by auto
qed

lemma sessionFrom_DurationSec_nonneg: "0 \<le> DurationSec (sessionFrom F r s e)"
proof -
  define dur where "dur = (if Round (Sub e s) Second < 0 then 0 else Round (Sub e s) Second)"
  have b: "0 \<le> dur" "dur \<le> maxDuration"
    using clamped_Round_range [of e s] by (simp_all add: dur_def)
  have "DurationSec (sessionFrom F r s e) = int64 (dur sdiv Second)"
    by (simp only: DurationSec_eq dur_def)
  also have "\<dots> = dur div 1000000000" using b by (rule clamp_div)
  finally show ?thesis using b by simp
qed

subsection \<open>C2: the duration of a finalized session\<close>

text \<open>
  C2. \<open>sessionFrom\<close> never produces a negative \<open>DurationSec\<close>, also when \<open>end\<close> is
  before \<open>start\<close>. When \<open>end - start\<close> is below 9223372036500000000 ns (about 292.27
  years), \<open>DurationSec\<close> is \<open>end - start\<close> rounded to the nearest whole second and
  clamped at zero. Beyond that bound \<open>time.Duration\<close> saturates: the counterexample
  below has instants 9223372036.500000001 s apart and a \<open>DurationSec\<close> of 9223372036,
  where the nearest whole second is 9223372037.
\<close>

theorem sessionFrom_duration:
  "0 \<le> DurationSec (sessionFrom F r start end') \<and>
   (end' - start < 9223372036500000000 \<longrightarrow>
      DurationSec (sessionFrom F r start end') =
        max 0 (round (real_of_int (end' - start) / 1000000000)))"
proof (intro conjI impI)
  show "0 \<le> DurationSec (sessionFrom F r start end')"
    by (rule sessionFrom_DurationSec_nonneg)
next
  assume bound: "end' - start < 9223372036500000000"
  define d where "d = Sub end' start"
  have dr: "minDuration \<le> d" "d \<le> maxDuration"
    using Sub_range [of end' start] by (simp_all add: d_def)
  show "DurationSec (sessionFrom F r start end') =
          max 0 (round (real_of_int (end' - start) / 1000000000))"
  proof (cases "end' - start < 0")
    case True
    then have "d < 0" by (simp add: d_def Sub_def maxDuration_def minDuration_def)
    from Round_Second_neg [OF this dr(1)]
    have "DurationSec (sessionFrom F r start end') = 0"
      by (auto simp: DurationSec_eq d_def [symmetric] int64_def)
    moreover have "(end' - start + 500000000) div 1000000000 \<le> 0"
    proof -
      have "(end' - start + 500000000) div 1000000000 \<le> 999999999 div (1000000000::int)"
        using True by (intro zdiv_mono1) auto
      then show ?thesis by simp
    qed
    ultimately show ?thesis unfolding round_div_Second by simp
  next
    case False
    then have d: "d = end' - start" using bound
      by (simp add: d_def Sub_def maxDuration_def minDuration_def)
    have nn: "0 \<le> d" "d < 9223372036500000000" using False bound d by simp_all
    have R: "Round d Second = ((d + 500000000) div 1000000000) * 1000000000"
      using nn by (rule Round_Second_exact)
    have Rb: "0 \<le> Round d Second \<and> Round d Second \<le> maxDuration"
      using nn dr by (intro Round_Second_nonneg) auto
    then have "DurationSec (sessionFrom F r start end') = Round d Second div 1000000000"
      by (simp add: DurationSec_eq d_def [symmetric] clamp_div)
    also have "\<dots> = (d + 500000000) div 1000000000" by (simp add: R)
    finally show ?thesis using nn unfolding round_div_Second d by simp
  qed
qed

theorem sessionFrom_duration_witness:
  "DurationSec (sessionFrom (\<lambda>t. []) \<lparr>record_t.App = ''a'', record_t.Title = ''b'', record_t.Activity = ''c'', record_t.Timestamp = 0\<rparr>
      0 3000000000) = 3 \<and>
   DurationSec (sessionFrom (\<lambda>t. []) \<lparr>record_t.App = ''a'', record_t.Title = ''b'', record_t.Activity = ''c'', record_t.Timestamp = 0\<rparr>
      5000000000 3000000000) = 0"
  using sessionFrom_duration [of "\<lambda>t. []" "\<lparr>record_t.App = ''a'', record_t.Title = ''b'', record_t.Activity = ''c'', record_t.Timestamp = 0\<rparr>" 0 3000000000]
    sessionFrom_duration [of "\<lambda>t. []" "\<lparr>record_t.App = ''a'', record_t.Title = ''b'', record_t.Activity = ''c'', record_t.Timestamp = 0\<rparr>" 5000000000 3000000000]
  by simp

theorem sessionFrom_duration_counterexample:
  "DurationSec (sessionFrom (\<lambda>t. []) \<lparr>record_t.App = ''a'', record_t.Title = ''b'', record_t.Activity = ''c'', record_t.Timestamp = 0\<rparr>
      0 9223372036500000001) = 9223372036 \<and>
   max 0 (round (real_of_int (9223372036500000001 - 0) / 1000000000)) = 9223372037"
proof
  have S: "Sub 9223372036500000001 0 = 9223372036500000001"
    by (simp add: Sub_def maxDuration_def minDuration_def)
  have R: "Round 9223372036500000001 Second = maxDuration"
    by (simp add: Round_def Second_def Let_def signed_modulo_int_def lessThanHalf_def uint64_def
        int64_def maxDuration_def)
  show "DurationSec (sessionFrom (\<lambda>t. []) \<lparr>record_t.App = ''a'', record_t.Title = ''b'', record_t.Activity = ''c'', record_t.Timestamp = 0\<rparr>
      0 9223372036500000001) = 9223372036"
  proof -
    have "DurationSec (sessionFrom (\<lambda>t. []) \<lparr>record_t.App = ''a'', record_t.Title = ''b'', record_t.Activity = ''c'', record_t.Timestamp = 0\<rparr>
      0 9223372036500000001) = int64 (maxDuration sdiv Second)"
      by (simp add: DurationSec_eq S R) (simp add: maxDuration_def)
    also have "\<dots> = 9223372036"
      by (simp add: maxDuration_def Second_def signed_divide_int_def int64_def)
    finally show ?thesis .
  qed
  show "max 0 (round (real_of_int (9223372036500000001 - 0) / 1000000000)) = 9223372037"
    unfolding round_div_Second by simp
qed

end
